theory Spec2Isabelle
  imports Main
begin

section \<open>The expo plugin: \<^verbatim>\<open>packages/knip/src/plugins/expo/helpers.ts\<close>\<close>

subsection \<open>Inputs\<close>

text \<open>
  Modelled from the spec: \<^verbatim>\<open>util/input.js\<close> is not among the sources. The spec (4.2)
  describes what a plugin produces as attributed dependencies (package names) with an
  optional production-vs-dev classification, so an \<open>Input\<close> is the package name with
  the production flag; \<open>toDependency\<close> builds the plain one and
  \<open>toProductionDependency\<close> the one classified as production.
\<close>

record Input =
  specifier :: string
  production :: bool

definition toDependency :: "string \<Rightarrow> Input" where
  "toDependency s = \<lparr>specifier = s, production = False\<rparr>"

definition toProductionDependency :: "string \<Rightarrow> Input" where
  "toProductionDependency s = \<lparr>specifier = s, production = True\<rparr>"

subsection \<open>The configuration and the manifest\<close>

text \<open>
  The fields \<open>getDependencies\<close> reads from the expo configuration. An absent field
  (\<^verbatim>\<open>undefined\<close>) is \<open>None\<close>. An entry of \<^verbatim>\<open>plugins\<close> is a string or an array whose
  first element is the string.
\<close>

type_synonym JsObject = "(string \<times> string) list"

datatype PluginEntry = PluginName string | PluginTuple string JsObject

record Updates =
  enabled :: "bool option"

record IosConfig =
  ios_backgroundColor :: "string option"

record AndroidConfig =
  android_userInterfaceStyle :: "string option"

record AppConfig =
  platforms :: "string list option"
  plugins :: "PluginEntry list option"
  updates :: "Updates option"
  notification :: "JsObject option"
  userInterfaceStyle :: "string option"
  backgroundColor :: "string option"
  ios :: "IosConfig option"
  android :: "AndroidConfig option"
  androidNavigationBar :: "JsObject option"

text \<open>
  The configuration is the app configuration itself or an object holding it under the
  key \<^verbatim>\<open>expo\<close>, and \<open>localConfig\<close> is such an object or a function returning one.
\<close>

datatype ExpoConfigObject = ExpoWrapped AppConfig | ExpoBare AppConfig

datatype ExpoConfig = FunctionConfig "unit \<Rightarrow> ExpoConfigObject" | ObjectConfig ExpoConfigObject

record PackageJson =
  main :: "string option"
  dependencies :: "JsObject option"
  devDependencies :: "JsObject option"

record PluginOptions =
  manifest :: PackageJson

subsection \<open>Objects and the set of inputs\<close>

text \<open>
  The state a call runs in: the two argument objects, and the allocation counter that
  gives every object created by the call its identity. A JavaScript \<^verbatim>\<open>Set\<close> of
  objects compares its elements by identity, and keeps them in insertion order.
\<close>

type_synonym ref = nat

record Heap =
  localConfig :: ExpoConfig
  options :: PluginOptions
  next_ref :: ref

type_synonym InputSet = "(ref \<times> Input) list"

definition alloc :: "Input \<Rightarrow> Heap \<Rightarrow> (ref \<times> Input) \<times> Heap" where
  "alloc obj h = ((next_ref h, obj), h\<lparr>next_ref := Suc (next_ref h)\<rparr>)"

definition Set_add :: "ref \<times> Input \<Rightarrow> InputSet \<Rightarrow> InputSet" where
  "Set_add x xs = (if fst x \<in> fst ` set xs then xs else xs @ [x])"

text \<open>\<^verbatim>\<open>inputs.add(toDependency(pkg))\<close>: create the object, then add it to the set.\<close>

definition add_new :: "Input \<Rightarrow> InputSet \<times> Heap \<Rightarrow> InputSet \<times> Heap" where
  "add_new obj s = (let (x, h') = alloc obj (snd s) in (Set_add x (fst s), h'))"

subsection \<open>getDependencies\<close>

text \<open>JavaScript truthiness of an optional string, and of the result of the name helper.\<close>

definition truthy :: "string option \<Rightarrow> bool" where
  "truthy v = (case v of None \<Rightarrow> False | Some s \<Rightarrow> s \<noteq> [])"

text \<open>Lines 9 and 10: call \<open>localConfig\<close> when it is a function, unwrap \<^verbatim>\<open>expo\<close>.\<close>

definition resolveConfig :: "ExpoConfig \<Rightarrow> AppConfig" where
  "resolveConfig lc =
     (let expoConfig = (case lc of FunctionConfig f \<Rightarrow> f () | ObjectConfig c \<Rightarrow> c)
      in case expoConfig of ExpoWrapped c \<Rightarrow> c | ExpoBare c \<Rightarrow> c)"

text \<open>Line 12.\<close>

definition platformsOf :: "AppConfig \<Rightarrow> string list" where
  "platformsOf config = (case platforms config of None \<Rightarrow> [''ios'', ''android''] | Some ps \<Rightarrow> ps)"

text \<open>
  Lines 14 to 20. \<^verbatim>\<open>getPackageNameFromModuleSpecifier\<close> lives in \<^verbatim>\<open>util/modules.js\<close>,
  which is not among the sources: it is a parameter here, returning \<open>None\<close> for
  \<^verbatim>\<open>undefined\<close>.
\<close>

definition pluginName :: "PluginEntry \<Rightarrow> string" where
  "pluginName plugin = (case plugin of PluginTuple n _ \<Rightarrow> n | PluginName n \<Rightarrow> n)"

definition pluginPackages :: "(string \<Rightarrow> string option) \<Rightarrow> AppConfig \<Rightarrow> string list" where
  "pluginPackages getPackageNameFromModuleSpecifier config =
     (case plugins config of
        None \<Rightarrow> []
      | Some ps \<Rightarrow>
          map the (filter truthy (map (\<lambda>plugin. getPackageNameFromModuleSpecifier (pluginName plugin)) ps)))"

text \<open>Line 27.\<close>

definition manifestDependencies :: "PackageJson \<Rightarrow> string list" where
  "manifestDependencies m = (case dependencies m of None \<Rightarrow> [] | Some d \<Rightarrow> map fst d)"

definition allowedPackages :: "string list" where
  "allowedPackages = [''expo-atlas'', ''expo-dev-client'']"

definition allowedProductionPackages :: "string list" where
  "allowedProductionPackages = [''expo-insights'']"

text \<open>Line 41: \<^verbatim>\<open>config.updates?.enabled !== false\<close>.\<close>

definition updatesEnabled :: "AppConfig \<Rightarrow> bool" where
  "updatesEnabled config =
     (case updates config of None \<Rightarrow> True | Some u \<Rightarrow> enabled u \<noteq> Some False)"

text \<open>Lines 67 to 70.\<close>

definition needsSystemUi :: "AppConfig \<Rightarrow> string list \<Rightarrow> bool" where
  "needsSystemUi config ps =
     ((''android'' \<in> set ps \<and>
        (truthy (userInterfaceStyle config) \<or>
         truthy (case android config of None \<Rightarrow> None | Some a \<Rightarrow> android_userInterfaceStyle a))) \<or>
      (''ios'' \<in> set ps \<and>
        (truthy (backgroundColor config) \<or>
         truthy (case ios config of None \<Rightarrow> None | Some i \<Rightarrow> ios_backgroundColor i))))"

definition getDependencies :: "(string \<Rightarrow> string option) \<Rightarrow> Heap \<Rightarrow> InputSet \<times> Heap" where
  "getDependencies getPackageNameFromModuleSpecifier h =
     (let config = resolveConfig (localConfig h);
          m = manifest (options h);
          ps = platformsOf config;
          s0 = fold (\<lambda>id. add_new (toDependency id))
                 (pluginPackages getPackageNameFromModuleSpecifier config) ([], h);
          s1 = fold (\<lambda>pkg s. if pkg \<in> set (manifestDependencies m)
                               then add_new (toDependency pkg) s else s) allowedPackages s0;
          s2 = fold (\<lambda>pkg s. if pkg \<in> set (manifestDependencies m)
                               then add_new (toProductionDependency pkg) s else s)
                 allowedProductionPackages s1;
          s3 = (if updatesEnabled config then add_new (toProductionDependency ''expo-updates'') s2 else s2);
          s4 = (if notification config \<noteq> None
                then add_new (toProductionDependency ''expo-notifications'') s3 else s3);
          isExpoRouter = (main m = Some ''expo-router/entry'');
          s5 = (if isExpoRouter then add_new (toProductionDependency ''expo-router'') s4 else s4);
          s6 = (if ''web'' \<in> set ps
                then (let t1 = add_new (toProductionDependency ''react-native-web'') s5;
                          t2 = add_new (toProductionDependency ''react-dom'') t1
                      in if \<not> isExpoRouter then add_new (toDependency ''@expo/metro-runtime'') t2 else t2)
                else s5);
          s7 = (if needsSystemUi config ps
                then add_new (toProductionDependency ''expo-system-ui'') s6 else s6);
          s8 = (if ''android'' \<in> set ps \<and> androidNavigationBar config \<noteq> None
                then add_new (toProductionDependency ''expo-navigation-bar'') s7 else s7)
      in s8)"

text \<open>The objects of the returned array, in order, without their identities.\<close>

definition contents :: "InputSet \<times> Heap \<Rightarrow> Input list" where
  "contents s = map snd (fst s)"

text \<open>
  The invariant of a call: every object already in the set was created before, so its
  identity is below the allocation counter.
\<close>

definition fresh_inv :: "InputSet \<times> Heap \<Rightarrow> bool" where
  "fresh_inv s = (\<forall>r \<in> fst ` set (fst s). r < next_ref (snd s))"

text \<open>
  What a call that started in the state \<open>h\<close> has done so far: it has created the objects
  of its set and nothing else, and it has changed nothing but the allocation counter.
\<close>

definition tracks :: "Heap \<Rightarrow> InputSet \<times> Heap \<Rightarrow> bool" where
  "tracks h s = (fresh_inv s \<and> snd s = h\<lparr>next_ref := next_ref h + length (fst s)\<rparr>)"

text \<open>
  Modelled from the spec: \<^verbatim>\<open>util/modules.js\<close> is not among the sources. The spec (4.7,
  step 6) derives the package name "by stripping subpath from the specifier", and (4.4,
  step 1) takes a specifier starting with \<^verbatim>\<open>./\<close>, \<^verbatim>\<open>../\<close> or \<^verbatim>\<open>/\<close> as a path, not a
  package. A scoped name keeps its scope and its name, any other name its first segment.
  This instance of the helper is used at concrete inputs only; the theorems about
  \<open>getDependencies\<close> hold for every helper.
\<close>

definition segment :: "string \<Rightarrow> string" where
  "segment s = takeWhile (\<lambda>c. c \<noteq> CHR ''/'') s"

definition getPackageNameFromModuleSpecifier :: "string \<Rightarrow> string option" where
  "getPackageNameFromModuleSpecifier s =
     (case s of
        [] \<Rightarrow> None
      | c # _ \<Rightarrow>
          if c = CHR ''.'' \<or> c = CHR ''/'' then None
          else if c = CHR ''@'' then
            (case dropWhile (\<lambda>c. c \<noteq> CHR ''/'') s of
               [] \<Rightarrow> Some (segment s)
             | _ # rest \<Rightarrow> Some (segment s @ ''/'' @ segment rest))
          else Some (segment s))"

subsection \<open>The dependency attribution table\<close>

text \<open>
  Modelled from the spec: the workspace model and the classifier of unused dependencies
  are not among the sources. Section 3: the table maps a package name to its declaration
  bucket, the files referencing it, the plugins referencing it and the ignore mark, and
  "a package is unused iff referenced-from-files and referenced-by-plugin are both empty
  and not marked-ignore". Section 4.2: the dependencies a plugin attributes are used
  regardless of source-level references, so each of them gets the plugin in its
  referenced-by-plugin entry. Section 4.8: the unused dependencies of a workspace are
  its declared dependencies that are unused in the table.
\<close>

record Attribution =
  declared_in_bucket :: string
  referenced_from_files :: "string list"
  referenced_by_plugin :: "string list"
  marked_ignore :: bool

type_synonym AttributionTable = "string \<Rightarrow> Attribution"

definition unused :: "Attribution \<Rightarrow> bool" where
  "unused e = (referenced_from_files e = [] \<and> referenced_by_plugin e = [] \<and> \<not> marked_ignore e)"

definition attribute_input :: "string \<Rightarrow> Input \<Rightarrow> AttributionTable \<Rightarrow> AttributionTable" where
  "attribute_input plugin i tbl =
     tbl(specifier i :=
       (tbl (specifier i))\<lparr>referenced_by_plugin := referenced_by_plugin (tbl (specifier i)) @ [plugin]\<rparr>)"

definition attribute :: "string \<Rightarrow> Input list \<Rightarrow> AttributionTable \<Rightarrow> AttributionTable" where
  "attribute plugin inputs tbl = fold (attribute_input plugin) inputs tbl"

definition unused_dependencies :: "string list \<Rightarrow> AttributionTable \<Rightarrow> string list" where
  "unused_dependencies declared tbl = filter (\<lambda>pkg. unused (tbl pkg)) declared"

section \<open>The reference graph, reachability and the issue classifier\<close>

text \<open>
  Modelled from the spec: the reference extractor, the module resolver, the reachability
  engine and the issue classifier are not among the sources; of this part of the
  repository the sources hold the documentation page "Handling Issues" only. The
  definitions follow sections 3 and 4.4 to 4.8 of the spec, and that page where it
  describes the same behaviour.
\<close>

type_synonym File = string

text \<open>
  Modelled from the spec: the reference extractor is missing. 4.6: an \<^verbatim>\<open>import()\<close> call
  yields an import edge "with string-literal argument only; otherwise
  dynamic-unresolvable".
\<close>

datatype Specifier = StringLiteral string | NonLiteral

text \<open>
  Modelled from the spec: the reference extractor is missing. These are the syntactic uses
  of a namespace binding that 4.6 distinguishes, what an import site binds, and what the
  extractor yields for one parsed file (its import sites and its exports with their
  JSDoc tags).
\<close>

datatype NamespaceUse =
    MemberAccess string
  | Destructuring "string list"
  | ObjectEnumeration
  | ForIn
  | Spread
  | PassedAsArgument

datatype Imported = Named string | Namespace "NamespaceUse list" | SideEffectOnly

record ImportSite =
  import_specifier :: Specifier
  imported :: Imported

record Export =
  export_name :: string
  jsdoc_tags :: "string list"

record ParsedFile =
  file_imports :: "ImportSite list"
  file_exports :: "Export list"

datatype Resolution = Internal File | External string | Unresolved

text \<open>
  Modelled from the spec: the module resolver and the entry/project resolver are missing.
  A specifier resolves to an internal file, an external package or nothing (4.4). One
  analysis pass has the parsed files, the module resolver, the entry, project and ignore
  sets (4.3), the option \<^verbatim>\<open>includeEntryExports\<close> (6) and the tags that count as
  equivalent to \<^verbatim>\<open>@public\<close> (4.8), among them the user-configured ignore tags (4.6).
\<close>

record Analysis =
  sources :: "(File \<times> ParsedFile) list"
  resolve :: "File \<Rightarrow> string \<Rightarrow> Resolution"
  entry :: "File list"
  project :: "File list"
  ignore :: "File list"
  includeEntryExports :: bool
  equivalent_tags :: "string list"

text \<open>
  Modelled from the spec: the source parser facade is missing. 4.5: a file that cannot be
  parsed is admitted with zero exports and imports.
\<close>

definition parse_file :: "Analysis \<Rightarrow> File \<Rightarrow> ParsedFile" where
  "parse_file a f =
     (case map_of (sources a) f of
        None \<Rightarrow> \<lparr>file_imports = [], file_exports = []\<rparr>
      | Some p \<Rightarrow> p)"

text \<open>
  Modelled from the spec: the reachability engine is missing. 4.4 and 4.7 (steps 4 and
  5): only a specifier that resolves to an internal file gives an edge to follow. A
  dynamic specifier contributes no import edge; the documentation page says the same
  ("Dynamic import specifiers aren't resolved"). The page knows no other effect of a
  dynamic specifier: the file it would load has to be added to the entry patterns.
\<close>

definition resolved_target :: "Analysis \<Rightarrow> File \<Rightarrow> ImportSite \<Rightarrow> File option" where
  "resolved_target a f site =
     (case import_specifier site of
        NonLiteral \<Rightarrow> None
      | StringLiteral s \<Rightarrow> (case resolve a f s of Internal t \<Rightarrow> Some t | _ \<Rightarrow> None))"

definition import_edges :: "Analysis \<Rightarrow> File \<Rightarrow> (ImportSite \<times> File) list" where
  "import_edges a f =
     [(site, t). site \<leftarrow> file_imports (parse_file a f), Some t \<leftarrow> [resolved_target a f site]]"

definition targets :: "Analysis \<Rightarrow> File \<Rightarrow> File list" where
  "targets a f = map snd (import_edges a f)"

definition import_graph :: "Analysis \<Rightarrow> (File \<times> File) set" where
  "import_graph a = {(f, t). t \<in> set (targets a f)}"

text \<open>
  Modelled from the spec: the reachability engine is missing. This is the finite universe
  of 4.7, the files some parsed file imports.
\<close>

definition universe :: "Analysis \<Rightarrow> File set" where
  "universe a = (\<Union>f \<in> fst ` set (sources a). set (targets a f))"

text \<open>
  Modelled from the spec: the reachability engine is missing. 4.7, the worklist
  algorithm: seed the worklist with the entry set; pop a file, skip it if already
  processed, otherwise process it and enqueue the targets of its import edges. The
  worklist is first in, first out.
\<close>

function traverse :: "Analysis \<Rightarrow> File list \<Rightarrow> File list \<Rightarrow> File list" where
  "traverse a [] processed = processed"
| "traverse a (f # worklist) processed =
     (if f \<in> set processed then traverse a worklist processed
      else traverse a (worklist @ targets a f) (processed @ [f]))"
  by pat_completeness auto
termination
proof (relation "measures [\<lambda>(a, ws, ps). card ((universe a \<union> set ws) - set ps),
                            \<lambda>(a, ws, ps). length ws]", goal_cases)
  case 1
  then show ?case by simp
next
  case (2 a f worklist processed)
  then have "(universe a \<union> set worklist) - set processed
               = (universe a \<union> set (f # worklist)) - set processed"
    by auto
  then show ?case by simp
next
  case (3 a f worklist processed)
  have sub: "set (targets a f) \<subseteq> universe a"
  proof (cases "map_of (sources a) f")
    case None
    then show ?thesis by (simp add: targets_def import_edges_def parse_file_def)
  next
    case (Some p)
    then have "f \<in> fst ` set (sources a)" by (force dest: map_of_SomeD)
    then show ?thesis unfolding universe_def by blast
  qed
  have "(universe a \<union> set (worklist @ targets a f)) - set (processed @ [f])
          \<subset> (universe a \<union> set (f # worklist)) - set processed"
    using 3 sub by auto
  moreover have "finite ((universe a \<union> set (f # worklist)) - set processed)"
    unfolding universe_def by simp
  ultimately have "card ((universe a \<union> set (worklist @ targets a f)) - set (processed @ [f]))
          < card ((universe a \<union> set (f # worklist)) - set processed)"
    by (rule psubset_card_mono[rotated])
  then show ?case by simp
qed

definition reachable :: "Analysis \<Rightarrow> File list" where
  "reachable a = traverse a (entry a) []"

text \<open>
  Modelled from the spec: the reference extractor is missing. 4.6, reference edges. A
  named import marks that export; a member access on a namespace marks that member; a
  destructuring marks the destructured names; a whole-namespace iteration
  (\<^verbatim>\<open>Object.values(ns)\<close>, \<^verbatim>\<open>for ... in ns\<close>, a spread, a pass as argument to an unknown
  function) marks all exports of the source module as referenced.
\<close>

definition names_of_use :: "Analysis \<Rightarrow> File \<Rightarrow> NamespaceUse \<Rightarrow> string list" where
  "names_of_use a t u =
     (case u of
        MemberAccess n \<Rightarrow> [n]
      | Destructuring ns \<Rightarrow> ns
      | ObjectEnumeration \<Rightarrow> map export_name (file_exports (parse_file a t))
      | ForIn \<Rightarrow> map export_name (file_exports (parse_file a t))
      | Spread \<Rightarrow> map export_name (file_exports (parse_file a t))
      | PassedAsArgument \<Rightarrow> map export_name (file_exports (parse_file a t)))"

definition references_of_edge :: "Analysis \<Rightarrow> ImportSite \<times> File \<Rightarrow> (File \<times> string) list" where
  "references_of_edge a e =
     (case imported (fst e) of
        Named n \<Rightarrow> [(snd e, n)]
      | Namespace uses \<Rightarrow> concat (map (\<lambda>u. map (\<lambda>n. (snd e, n)) (names_of_use a (snd e) u)) uses)
      | SideEffectOnly \<Rightarrow> [])"

text \<open>
  Modelled from the spec: the reference graph is missing. Section 3: every reachable file
  has its edges materialized, so the references are those of the reachable files.
\<close>

definition references :: "Analysis \<Rightarrow> (File \<times> string) list" where
  "references a = concat (map (\<lambda>f. concat (map (references_of_edge a) (import_edges a f))) (reachable a))"

text \<open>
  Modelled from the spec: the issue classifier is missing. 4.8: unused files are (project
  minus ignore) minus reachable; the documentation page gives the same difference,
  project files minus entry and resolved files.
\<close>

definition unused_files :: "Analysis \<Rightarrow> File list" where
  "unused_files a = filter (\<lambda>f. f \<notin> set (ignore a) \<and> f \<notin> set (reachable a)) (project a)"

text \<open>
  Modelled from the spec: the issue classifier is missing. 4.8: an unused-export report
  is "suppressed when tagged \<^verbatim>\<open>@public\<close> or equivalent"; 4.6: \<^verbatim>\<open>@public\<close> suppresses the
  report for that symbol, and user-configured ignore tags alter the classification too.
\<close>

definition suppressing_tags :: "Analysis \<Rightarrow> string list" where
  "suppressing_tags a = ''@public'' # equivalent_tags a"

definition suppressed :: "Analysis \<Rightarrow> Export \<Rightarrow> bool" where
  "suppressed a e = (\<exists>t \<in> set (jsdoc_tags e). t \<in> set (suppressing_tags a))"

text \<open>
  Modelled from the spec: the issue classifier is missing. 4.8: unused exports are the
  exports of reachable files with zero references, "suppressed when the owning file is
  in the entry set unless the explicit include entry exports option is set; suppressed
  when tagged \<^verbatim>\<open>@public\<close> or equivalent". 4.3: the files of the ignore set are excluded
  from reporting, though they may be reachable, and ignore is applied last.
\<close>

definition unused_exports :: "Analysis \<Rightarrow> (File \<times> Export) list" where
  "unused_exports a =
     [(f, e). f \<leftarrow> reachable a, e \<leftarrow> file_exports (parse_file a f),
              (f, export_name e) \<notin> set (references a),
              f \<notin> set (entry a) \<or> includeEntryExports a,
              \<not> suppressed a e,
              f \<notin> set (ignore a)]"

section \<open>Sample inputs\<close>

text \<open>An expo configuration with no field set, a manifest with no field set, and the
  state of a call on a configuration object and a manifest.\<close>

definition emptyAppConfig :: AppConfig where
  "emptyAppConfig = \<lparr>platforms = None, plugins = None, updates = None, notification = None,
     userInterfaceStyle = None, backgroundColor = None, ios = None, android = None,
     androidNavigationBar = None\<rparr>"

definition emptyManifest :: PackageJson where
  "emptyManifest = \<lparr>main = None, dependencies = None, devDependencies = None\<rparr>"

definition heapOf :: "AppConfig \<Rightarrow> PackageJson \<Rightarrow> ref \<Rightarrow> Heap" where
  "heapOf config m n = \<lparr>localConfig = ObjectConfig (ExpoBare config), options = \<lparr>manifest = m\<rparr>, next_ref = n\<rparr>"

definition bareHeap :: Heap where
  "bareHeap = heapOf emptyAppConfig emptyManifest 0"

definition webHeap :: Heap where
  "webHeap = heapOf (emptyAppConfig\<lparr>platforms := Some [''ios'', ''web'']\<rparr>) emptyManifest 0"

definition updatesOffHeap :: Heap where
  "updatesOffHeap = heapOf (emptyAppConfig\<lparr>updates := Some \<lparr>enabled = Some False\<rparr>\<rparr>) emptyManifest 0"

definition cameraPlugins :: "PluginEntry list" where
  "cameraPlugins = [PluginTuple ''expo-camera/plugin'' [(''cameraPermission'', ''Allow'')],
                    PluginName ''./plugins/local'',
                    PluginName ''@config-plugins/detox/app'']"

definition cameraHeap :: Heap where
  "cameraHeap = heapOf (emptyAppConfig\<lparr>plugins := Some cameraPlugins\<rparr>) emptyManifest 0"

definition cameraFunctionHeap :: Heap where
  "cameraFunctionHeap =
     \<lparr>localConfig = FunctionConfig (\<lambda>_. ExpoWrapped (emptyAppConfig\<lparr>plugins := Some cameraPlugins\<rparr>)),
      options = \<lparr>manifest = emptyManifest\<rparr>,
      next_ref = 3\<rparr>"

definition devClientHeap :: Heap where
  "devClientHeap = heapOf
     (emptyAppConfig\<lparr>plugins := Some [PluginName ''expo-dev-client'']\<rparr>)
     (emptyManifest\<lparr>dependencies := Some [(''expo'', ''~51.0.0'')],
                    devDependencies := Some [(''expo-dev-client'', ''~4.0.0'')]\<rparr>) 0"

definition insightsHeap :: Heap where
  "insightsHeap = heapOf emptyAppConfig
     (emptyManifest\<lparr>dependencies := Some [(''expo-insights'', ''~0.7.0''), (''expo-atlas'', ''~0.3.0'')]\<rparr>) 0"

definition metroPluginHeap :: Heap where
  "metroPluginHeap = heapOf (emptyAppConfig\<lparr>plugins := Some [PluginName ''@expo/metro-runtime'']\<rparr>) emptyManifest 0"

definition webRouterHeap :: Heap where
  "webRouterHeap = heapOf (emptyAppConfig\<lparr>platforms := Some [''ios'', ''web'']\<rparr>)
     (emptyManifest\<lparr>main := Some ''expo-router/entry''\<rparr>) 0"

text \<open>An attribution table in which no package is referenced yet.\<close>

definition emptyTable :: AttributionTable where
  "emptyTable = (\<lambda>pkg. \<lparr>declared_in_bucket = ''dependencies'', referenced_from_files = [],
                        referenced_by_plugin = [], marked_ignore = False\<rparr>)"

text \<open>
  The scenarios of section 8 of the spec. Namespace iteration: \<^verbatim>\<open>fruits.ts\<close> exports
  \<^verbatim>\<open>apple\<close> and \<^verbatim>\<open>orange\<close>, the entry \<^verbatim>\<open>index.ts\<close> imports it as a namespace and uses the
  namespace once, in the given way. Dynamic specifier: the entry \<^verbatim>\<open>index.ts\<close> imports
  \<^verbatim>\<open>'./entry-' + name + '.ts'\<close>, and \<^verbatim>\<open>entry-a.ts\<close> exists. Tagged export: the entry imports
  \<^verbatim>\<open>lib.ts\<close> for its side effects, and \<^verbatim>\<open>lib.ts\<close> exports \<^verbatim>\<open>helper\<close> with the given tags;
  the given files are ignored, and \<^verbatim>\<open>@beta\<close> is configured as equivalent to \<^verbatim>\<open>@public\<close>.
\<close>

definition fruits_scenario :: "NamespaceUse \<Rightarrow> Analysis" where
  "fruits_scenario u =
     \<lparr>sources =
        [(''index.ts'',
            \<lparr>file_imports = [\<lparr>import_specifier = StringLiteral ''./fruits.js'', imported = Namespace [u]\<rparr>],
             file_exports = []\<rparr>),
         (''fruits.ts'',
            \<lparr>file_imports = [],
             file_exports = [\<lparr>export_name = ''apple'', jsdoc_tags = []\<rparr>,
                             \<lparr>export_name = ''orange'', jsdoc_tags = []\<rparr>]\<rparr>)],
      resolve = (\<lambda>f s. if s = ''./fruits.js'' then Internal ''fruits.ts'' else Unresolved),
      entry = [''index.ts''],
      project = [''index.ts'', ''fruits.ts''],
      ignore = [],
      includeEntryExports = False,
      equivalent_tags = []\<rparr>"

definition dynamic_scenario :: Analysis where
  "dynamic_scenario =
     \<lparr>sources =
        [(''index.ts'',
            \<lparr>file_imports = [\<lparr>import_specifier = NonLiteral, imported = Namespace []\<rparr>],
             file_exports = []\<rparr>),
         (''entry-a.ts'', \<lparr>file_imports = [], file_exports = []\<rparr>)],
      resolve = (\<lambda>f s. if s = ''./entry-a.ts'' then Internal ''entry-a.ts'' else Unresolved),
      entry = [''index.ts''],
      project = [''index.ts'', ''entry-a.ts''],
      ignore = [],
      includeEntryExports = False,
      equivalent_tags = []\<rparr>"

definition public_scenario :: "string list \<Rightarrow> File list \<Rightarrow> Analysis" where
  "public_scenario tags ignored =
     \<lparr>sources =
        [(''index.ts'',
            \<lparr>file_imports = [\<lparr>import_specifier = StringLiteral ''./lib.js'', imported = SideEffectOnly\<rparr>],
             file_exports = []\<rparr>),
         (''lib.ts'',
            \<lparr>file_imports = [],
             file_exports = [\<lparr>export_name = ''helper'', jsdoc_tags = tags\<rparr>]\<rparr>)],
      resolve = (\<lambda>f s. if s = ''./lib.js'' then Internal ''lib.ts'' else Unresolved),
      entry = [''index.ts''],
      project = [''index.ts'', ''lib.ts''],
      ignore = ignored,
      includeEntryExports = False,
      equivalent_tags = [''@beta'']\<rparr>"

section \<open>What a call of getDependencies returns\<close>

text \<open>
  Every object added to the set is new, so no \<^verbatim>\<open>add\<close> finds its argument in the set:
  the returned array holds one object for every \<^verbatim>\<open>add\<close> executed, in order, and the
  state differs from the initial one by the allocation of these objects only.
\<close>

lemma add_new_eq:
  "fresh_inv s \<Longrightarrow> add_new obj s = (fst s @ [(next_ref (snd s), obj)], (snd s)\<lparr>next_ref := Suc (next_ref (snd s))\<rparr>)"
  by (auto simp: fresh_inv_def add_new_def alloc_def Set_add_def)

lemma fresh_add_new: "fresh_inv s \<Longrightarrow> fresh_inv (add_new obj s)"
  by (auto simp: add_new_eq) (auto simp: fresh_inv_def less_Suc_eq)

lemma tracks_init: "tracks h ([], h)"
  by (simp add: tracks_def fresh_inv_def)

lemma tracks_add_new: "tracks h s \<Longrightarrow> tracks h (add_new obj s)"
  unfolding tracks_def
proof (elim conjE, intro conjI)
  assume fresh: "fresh_inv s" and heap: "snd s = h\<lparr>next_ref := next_ref h + length (fst s)\<rparr>"
  show "fresh_inv (add_new obj s)" using fresh by (rule fresh_add_new)
  have "snd (add_new obj s) = (snd s)\<lparr>next_ref := Suc (next_ref (snd s))\<rparr>"
    and "length (fst (add_new obj s)) = Suc (length (fst s))"
    using fresh by (simp_all add: add_new_eq)
  then show "snd (add_new obj s) = h\<lparr>next_ref := next_ref h + length (fst (add_new obj s))\<rparr>"
    using heap by simp
qed

lemma tracks_fresh: "tracks h s \<Longrightarrow> fresh_inv s"
  by (simp add: tracks_def)

lemma contents_add_new: "fresh_inv s \<Longrightarrow> contents (add_new obj s) = contents s @ [obj]"
  by (simp add: add_new_eq contents_def)

lemma tracks_if: "tracks h s \<Longrightarrow> tracks h (if c then add_new obj s else s)"
  by (simp add: tracks_add_new)

lemma contents_if:
  "tracks h s \<Longrightarrow> contents (if c then add_new obj s else s) = contents s @ (if c then [obj] else [])"
  by (simp add: contents_add_new tracks_fresh)

lemma tracks_fold: "tracks h s \<Longrightarrow> tracks h (fold (\<lambda>x s. if P x then add_new (f x) s else s) xs s)"
  by (induction xs arbitrary: s) (simp_all add: tracks_add_new)

lemma contents_fold:
  "tracks h s \<Longrightarrow>
   contents (fold (\<lambda>x s. if P x then add_new (f x) s else s) xs s) = contents s @ map f (filter P xs)"
  by (induction xs arbitrary: s) (simp_all add: tracks_add_new contents_add_new tracks_fresh)

lemma tracks_fold_all: "tracks h s \<Longrightarrow> tracks h (fold (\<lambda>x. add_new (f x)) xs s)"
  by (induction xs arbitrary: s) (simp_all add: tracks_add_new)

lemma contents_fold_all:
  "tracks h s \<Longrightarrow> contents (fold (\<lambda>x. add_new (f x)) xs s) = contents s @ map f xs"
  by (induction xs arbitrary: s) (simp_all add: tracks_add_new contents_add_new tracks_fresh)

lemma web_step:
  fixes s web router
  assumes "tracks h s"
  defines "r \<equiv> (if web
                then (let t1 = add_new (toProductionDependency ''react-native-web'') s;
                          t2 = add_new (toProductionDependency ''react-dom'') t1
                      in if \<not> router then add_new (toDependency ''@expo/metro-runtime'') t2 else t2)
                else s)"
  shows "tracks h r"
    and "contents r = contents s @
           (if web then [toProductionDependency ''react-native-web'', toProductionDependency ''react-dom'']
                        @ (if \<not> router then [toDependency ''@expo/metro-runtime''] else [])
            else [])"
proof -
  have fresh: "fresh_inv s" using assms(1) by (rule tracks_fresh)
  show "tracks h r"
    using assms(1) unfolding r_def by (simp add: Let_def tracks_add_new)
  show "contents r = contents s @
           (if web then [toProductionDependency ''react-native-web'', toProductionDependency ''react-dom'']
                        @ (if \<not> router then [toDependency ''@expo/metro-runtime''] else [])
            else [])"
    using fresh unfolding r_def by (simp add: Let_def fresh_add_new contents_add_new)
qed

lemma getDependencies_run:
  fixes g h
  defines "config \<equiv> resolveConfig (localConfig h)"
  defines "m \<equiv> manifest (options h)"
  defines "ps \<equiv> platformsOf config"
  shows "contents (getDependencies g h) =
           map toDependency (pluginPackages g config)
         @ map toDependency (filter (\<lambda>pkg. pkg \<in> set (manifestDependencies m)) allowedPackages)
         @ map toProductionDependency (filter (\<lambda>pkg. pkg \<in> set (manifestDependencies m)) allowedProductionPackages)
         @ (if updatesEnabled config then [toProductionDependency ''expo-updates''] else [])
         @ (if notification config \<noteq> None then [toProductionDependency ''expo-notifications''] else [])
         @ (if main m = Some ''expo-router/entry'' then [toProductionDependency ''expo-router''] else [])
         @ (if ''web'' \<in> set ps
            then [toProductionDependency ''react-native-web'', toProductionDependency ''react-dom'']
                 @ (if main m \<noteq> Some ''expo-router/entry'' then [toDependency ''@expo/metro-runtime''] else [])
            else [])
         @ (if needsSystemUi config ps then [toProductionDependency ''expo-system-ui''] else [])
         @ (if ''android'' \<in> set ps \<and> androidNavigationBar config \<noteq> None
            then [toProductionDependency ''expo-navigation-bar''] else [])"
    and "tracks h (getDependencies g h)"
proof -
  define s0 where "s0 = fold (\<lambda>id. add_new (toDependency id)) (pluginPackages g config) ([], h)"
  define s1 where "s1 = fold (\<lambda>pkg s. if pkg \<in> set (manifestDependencies m)
                               then add_new (toDependency pkg) s else s) allowedPackages s0"
  define s2 where "s2 = fold (\<lambda>pkg s. if pkg \<in> set (manifestDependencies m)
                               then add_new (toProductionDependency pkg) s else s)
                 allowedProductionPackages s1"
  define s3 where "s3 = (if updatesEnabled config then add_new (toProductionDependency ''expo-updates'') s2 else s2)"
  define s4 where "s4 = (if notification config \<noteq> None
                then add_new (toProductionDependency ''expo-notifications'') s3 else s3)"
  define isExpoRouter where "isExpoRouter = (main m = Some ''expo-router/entry'')"
  define s5 where "s5 = (if isExpoRouter then add_new (toProductionDependency ''expo-router'') s4 else s4)"
  define s6 where "s6 = (if ''web'' \<in> set ps
                then (let t1 = add_new (toProductionDependency ''react-native-web'') s5;
                          t2 = add_new (toProductionDependency ''react-dom'') t1
                      in if \<not> isExpoRouter then add_new (toDependency ''@expo/metro-runtime'') t2 else t2)
                else s5)"
  define s7 where "s7 = (if needsSystemUi config ps
                then add_new (toProductionDependency ''expo-system-ui'') s6 else s6)"
  define s8 where "s8 = (if ''android'' \<in> set ps \<and> androidNavigationBar config \<noteq> None
                then add_new (toProductionDependency ''expo-navigation-bar'') s7 else s7)"
  have run: "getDependencies g h = s8"
    unfolding getDependencies_def Let_def s8_def s7_def s6_def s5_def s4_def s3_def s2_def s1_def s0_def
      isExpoRouter_def config_def m_def ps_def ..
  have t0: "tracks h s0" unfolding s0_def by (rule tracks_fold_all[OF tracks_init])
  have t1: "tracks h s1" unfolding s1_def by (rule tracks_fold[OF t0])
  have t2: "tracks h s2" unfolding s2_def by (rule tracks_fold[OF t1])
  have t3: "tracks h s3" unfolding s3_def by (rule tracks_if[OF t2])
  have t4: "tracks h s4" unfolding s4_def by (rule tracks_if[OF t3])
  have t5: "tracks h s5" unfolding s5_def by (rule tracks_if[OF t4])
  have t6: "tracks h s6" unfolding s6_def by (rule web_step(1)[OF t5])
  have t7: "tracks h s7" unfolding s7_def by (rule tracks_if[OF t6])
  have t8: "tracks h s8" unfolding s8_def by (rule tracks_if[OF t7])
  have c0: "contents s0 = map toDependency (pluginPackages g config)"
    unfolding s0_def by (simp add: contents_fold_all[OF tracks_init]) (simp add: contents_def)
  have c1: "contents s1 = contents s0 @ map toDependency (filter (\<lambda>pkg. pkg \<in> set (manifestDependencies m)) allowedPackages)"
    unfolding s1_def by (rule contents_fold[OF t0])
  have c2: "contents s2 = contents s1 @ map toProductionDependency (filter (\<lambda>pkg. pkg \<in> set (manifestDependencies m)) allowedProductionPackages)"
    unfolding s2_def by (rule contents_fold[OF t1])
  have c3: "contents s3 = contents s2 @ (if updatesEnabled config then [toProductionDependency ''expo-updates''] else [])"
    unfolding s3_def by (rule contents_if[OF t2])
  have c4: "contents s4 = contents s3 @ (if notification config \<noteq> None then [toProductionDependency ''expo-notifications''] else [])"
    unfolding s4_def by (rule contents_if[OF t3])
  have c5: "contents s5 = contents s4 @ (if isExpoRouter then [toProductionDependency ''expo-router''] else [])"
    unfolding s5_def by (rule contents_if[OF t4])
  have c6: "contents s6 = contents s5 @
           (if ''web'' \<in> set ps then [toProductionDependency ''react-native-web'', toProductionDependency ''react-dom'']
                        @ (if \<not> isExpoRouter then [toDependency ''@expo/metro-runtime''] else [])
            else [])"
    unfolding s6_def by (rule web_step(2)[OF t5])
  have c7: "contents s7 = contents s6 @ (if needsSystemUi config ps then [toProductionDependency ''expo-system-ui''] else [])"
    unfolding s7_def by (rule contents_if[OF t6])
  have c8: "contents s8 = contents s7 @ (if ''android'' \<in> set ps \<and> androidNavigationBar config \<noteq> None
            then [toProductionDependency ''expo-navigation-bar''] else [])"
    unfolding s8_def by (rule contents_if[OF t7])
  show "contents (getDependencies g h) =
           map toDependency (pluginPackages g config)
         @ map toDependency (filter (\<lambda>pkg. pkg \<in> set (manifestDependencies m)) allowedPackages)
         @ map toProductionDependency (filter (\<lambda>pkg. pkg \<in> set (manifestDependencies m)) allowedProductionPackages)
         @ (if updatesEnabled config then [toProductionDependency ''expo-updates''] else [])
         @ (if notification config \<noteq> None then [toProductionDependency ''expo-notifications''] else [])
         @ (if main m = Some ''expo-router/entry'' then [toProductionDependency ''expo-router''] else [])
         @ (if ''web'' \<in> set ps
            then [toProductionDependency ''react-native-web'', toProductionDependency ''react-dom'']
                 @ (if main m \<noteq> Some ''expo-router/entry'' then [toDependency ''@expo/metro-runtime''] else [])
            else [])
         @ (if needsSystemUi config ps then [toProductionDependency ''expo-system-ui''] else [])
         @ (if ''android'' \<in> set ps \<and> androidNavigationBar config \<noteq> None
            then [toProductionDependency ''expo-navigation-bar''] else [])"
    unfolding run c8 c7 c6 c5 c4 c3 c2 c1 c0 isExpoRouter_def by simp
  show "tracks h (getDependencies g h)"
    unfolding run by (rule t8)
qed

lemma getDependencies_heap:
  "snd (getDependencies g h) = h\<lparr>next_ref := next_ref h + length (contents (getDependencies g h))\<rparr>"
  using getDependencies_run(2)[of h g] by (simp add: tracks_def contents_def)

lemma getDependencies_args:
  "localConfig (snd (getDependencies g h)) = localConfig h"
  "options (snd (getDependencies g h)) = options h"
  by (simp_all add: getDependencies_heap)

lemma Input_neq:
  "toProductionDependency x \<noteq> toDependency y"
  "toDependency y \<noteq> toProductionDependency x"
  "toProductionDependency x = toProductionDependency y \<longleftrightarrow> x = y"
  "toDependency x = toDependency y \<longleftrightarrow> x = y"
  by (simp_all add: toDependency_def toProductionDependency_def)

lemmas run_defs = heapOf_def emptyAppConfig_def emptyManifest_def
      resolveConfig_def platformsOf_def pluginPackages_def manifestDependencies_def pluginName_def
      allowedPackages_def allowedProductionPackages_def updatesEnabled_def needsSystemUi_def
      truthy_def getPackageNameFromModuleSpecifier_def segment_def

text \<open>Which inputs the returned array holds.\<close>

lemma mem_if_single: "x \<in> set (if c then [a] else []) \<longleftrightarrow> c \<and> x = a"
  by auto

lemma mem_if_web:
  "x \<in> set (if c then [a, b] @ (if d then [e] else []) else []) \<longleftrightarrow> c \<and> (x = a \<or> x = b \<or> (d \<and> x = e))"
  by auto

lemma plain_image: "toDependency n \<in> toDependency ` A \<longleftrightarrow> n \<in> A"
  by (auto simp: toDependency_def)

lemma production_image: "toProductionDependency n \<in> toProductionDependency ` A \<longleftrightarrow> n \<in> A"
  by (auto simp: toProductionDependency_def)

lemma cross_image:
  "toProductionDependency n \<notin> toDependency ` A" "toDependency n \<notin> toProductionDependency ` A"
  by (auto simp: toDependency_def toProductionDependency_def)

lemma plain_mem:
  "toDependency n \<in> set (contents (getDependencies g h))
     \<longleftrightarrow> n \<in> set (pluginPackages g (resolveConfig (localConfig h)))
        \<or> (n \<in> set allowedPackages \<and> n \<in> set (manifestDependencies (manifest (options h))))
        \<or> (''web'' \<in> set (platformsOf (resolveConfig (localConfig h)))
             \<and> main (manifest (options h)) \<noteq> Some ''expo-router/entry'' \<and> n = ''@expo/metro-runtime'')"
  unfolding getDependencies_run(1) set_append Un_iff mem_if_single mem_if_web set_map set_filter
    plain_image
  by (auto simp: Input_neq cross_image)

lemma production_mem:
  "toProductionDependency n \<in> set (contents (getDependencies g h))
     \<longleftrightarrow> (n \<in> set allowedProductionPackages \<and> n \<in> set (manifestDependencies (manifest (options h))))
        \<or> (updatesEnabled (resolveConfig (localConfig h)) \<and> n = ''expo-updates'')
        \<or> (notification (resolveConfig (localConfig h)) \<noteq> None \<and> n = ''expo-notifications'')
        \<or> (main (manifest (options h)) = Some ''expo-router/entry'' \<and> n = ''expo-router'')
        \<or> (''web'' \<in> set (platformsOf (resolveConfig (localConfig h)))
             \<and> (n = ''react-native-web'' \<or> n = ''react-dom''))
        \<or> (needsSystemUi (resolveConfig (localConfig h)) (platformsOf (resolveConfig (localConfig h)))
             \<and> n = ''expo-system-ui'')
        \<or> ((''android'' \<in> set (platformsOf (resolveConfig (localConfig h)))
             \<and> androidNavigationBar (resolveConfig (localConfig h)) \<noteq> None) \<and> n = ''expo-navigation-bar'')"
  unfolding getDependencies_run(1) set_append Un_iff mem_if_single mem_if_web set_map set_filter
    production_image
  by (auto simp: Input_neq cross_image)

text \<open>Attribution keeps what is referenced by a plugin, and references every input.\<close>

lemma attribute_input_kept:
  "referenced_by_plugin (tbl n) \<noteq> [] \<Longrightarrow> referenced_by_plugin (attribute_input plugin i tbl n) \<noteq> []"
  by (simp add: attribute_input_def)

lemma attribute_kept:
  "referenced_by_plugin (tbl n) \<noteq> [] \<Longrightarrow> referenced_by_plugin (fold (attribute_input plugin) is tbl n) \<noteq> []"
  by (induction "is" arbitrary: tbl) (simp_all add: attribute_input_kept)

lemma attribute_member:
  "i \<in> set is \<Longrightarrow> referenced_by_plugin (attribute plugin is tbl (specifier i)) \<noteq> []"
  unfolding attribute_def
proof (induction "is" arbitrary: tbl)
  case Nil
  then show ?case by simp
next
  case (Cons j js)
  show ?case
  proof (cases "i = j")
    case True
    have "referenced_by_plugin (attribute_input plugin j tbl (specifier i)) \<noteq> []"
      using True by (simp add: attribute_input_def)
    then show ?thesis by (simp add: attribute_kept)
  next
    case False
    with Cons.prems have "i \<in> set js" by simp
    then show ?thesis using Cons.IH by simp
  qed
qed

lemma pluginPackages_member:
  assumes "plugins config = Some ps" and "p \<in> set ps" and "g (pluginName p) = Some n" and "n \<noteq> []"
  shows "n \<in> set (pluginPackages g config)"
proof -
  have "Some n \<in> set (filter truthy (map (\<lambda>plugin. g (pluginName plugin)) ps))"
    using assms by (force simp: truthy_def)
  then have "the (Some n) \<in> the ` set (filter truthy (map (\<lambda>plugin. g (pluginName plugin)) ps))"
    by (rule imageI)
  then show ?thesis using assms(1) by (simp add: pluginPackages_def)
qed

section \<open>Reachability is the closure of the entry set under import edges\<close>

lemma traverse_keeps: "set processed \<union> set worklist \<subseteq> set (traverse a worklist processed)"
  by (induction a worklist processed rule: traverse.induct) auto

lemma traverse_closed:
  "g \<in> set (traverse a worklist processed) \<Longrightarrow> g \<notin> set processed
     \<Longrightarrow> set (targets a g) \<subseteq> set (traverse a worklist processed)"
proof (induction a worklist processed rule: traverse.induct)
  case (1 a processed)
  then show ?case by simp
next
  case (2 a f worklist processed)
  show ?case
  proof (cases "f \<in> set processed")
    case True
    with 2 show ?thesis by simp
  next
    case False
    let ?r = "traverse a (worklist @ targets a f) (processed @ [f])"
    have res: "traverse a (f # worklist) processed = ?r" using False by simp
    show ?thesis
    proof (cases "g = f")
      case True
      have "set (targets a f) \<subseteq> set ?r"
        using traverse_keeps[of "processed @ [f]" "worklist @ targets a f" a] by auto
      then show ?thesis using True res by simp
    next
      case g: False
      have "g \<in> set ?r" using "2.prems"(1) res by simp
      moreover have "g \<notin> set (processed @ [f])" using "2.prems"(2) g by simp
      ultimately have "set (targets a g) \<subseteq> set ?r" using "2.IH"(2)[OF False] by blast
      then show ?thesis using res by simp
    qed
  qed
qed

lemma traverse_sound:
  "x \<in> set (traverse a worklist processed)
     \<Longrightarrow> x \<in> set processed \<or> (\<exists>w \<in> set worklist. (w, x) \<in> (import_graph a)\<^sup>*)"
proof (induction a worklist processed rule: traverse.induct)
  case (1 a processed)
  then show ?case by simp
next
  case (2 a f worklist processed)
  show ?case
  proof (cases "f \<in> set processed")
    case True
    with 2 show ?thesis by auto
  next
    case False
    then have "x \<in> set (traverse a (worklist @ targets a f) (processed @ [f]))"
      using "2.prems" by simp
    then consider "x \<in> set (processed @ [f])"
      | w where "w \<in> set (worklist @ targets a f)" "(w, x) \<in> (import_graph a)\<^sup>*"
      using "2.IH"(2)[OF False] by blast
    then show ?thesis
    proof cases
      case 1
      then show ?thesis by auto
    next
      case 2
      show ?thesis
      proof (cases "w \<in> set worklist")
        case True
        with 2 show ?thesis by auto
      next
        case False
        with 2 have "w \<in> set (targets a f)" by simp
        then have "(f, w) \<in> import_graph a" by (simp add: import_graph_def)
        with 2 have "(f, x) \<in> (import_graph a)\<^sup>*" by (meson converse_rtrancl_into_rtrancl)
        then show ?thesis by auto
      qed
    qed
  qed
qed

lemma reachable_closed:
  "(g, t) \<in> (import_graph a)\<^sup>* \<Longrightarrow> g \<in> set (reachable a) \<Longrightarrow> t \<in> set (reachable a)"
proof (induction rule: rtrancl_induct)
  case base
  then show ?case .
next
  case (step y z)
  then have "z \<in> set (targets a y)" by (simp add: import_graph_def)
  moreover have "set (targets a y) \<subseteq> set (reachable a)"
    using step traverse_closed[of y a "entry a" "[]"] by (simp add: reachable_def)
  ultimately show ?case by blast
qed

lemma reachable_iff:
  "f \<in> set (reachable a) \<longleftrightarrow> (\<exists>e \<in> set (entry a). (e, f) \<in> (import_graph a)\<^sup>*)"
proof
  assume "f \<in> set (reachable a)"
  then show "\<exists>e \<in> set (entry a). (e, f) \<in> (import_graph a)\<^sup>*"
    using traverse_sound[of f a "entry a" "[]"] by (simp add: reachable_def)
next
  assume "\<exists>e \<in> set (entry a). (e, f) \<in> (import_graph a)\<^sup>*"
  then obtain e where e: "e \<in> set (entry a)" "(e, f) \<in> (import_graph a)\<^sup>*" by blast
  have "e \<in> set (reachable a)"
    using e(1) traverse_keeps[of "[]" "entry a" a] by (auto simp: reachable_def)
  with e(2) show "f \<in> set (reachable a)" by (rule reachable_closed)
qed

lemma traverse_distinct:
  "distinct processed \<Longrightarrow> distinct (traverse a worklist processed)"
  by (induction a worklist processed rule: traverse.induct) auto

lemma targets_iff:
  "t \<in> set (targets a g) \<longleftrightarrow>
     (\<exists>site \<in> set (file_imports (parse_file a g)). \<exists>s.
         import_specifier site = StringLiteral s \<and> resolve a g s = Internal t)"
  by (auto simp: targets_def import_edges_def resolved_target_def
      split: Specifier.splits Resolution.splits) force+

lemmas scenario_defs = reachable_def targets_def import_edges_def parse_file_def resolved_target_def
  references_def references_of_edge_def names_of_use_def unused_exports_def unused_files_def
  suppressed_def suppressing_tags_def

text \<open>How a reference edge arises.\<close>

lemma references_member:
  assumes "g \<in> set (reachable a)" and "(site, m) \<in> set (import_edges a g)"
    and "r \<in> set (references_of_edge a (site, m))"
  shows "r \<in> set (references a)"
  using assms unfolding references_def by auto

lemma references_of_edge_target:
  "r \<in> set (references_of_edge a (site, t)) \<Longrightarrow> fst r = t"
  by (auto simp: references_of_edge_def split: Imported.splits)

lemma references_iff:
  "(f, n) \<in> set (references a) \<longleftrightarrow>
     (\<exists>g \<in> set (reachable a). \<exists>site.
         (site, f) \<in> set (import_edges a g) \<and> (f, n) \<in> set (references_of_edge a (site, f)))"
proof
  assume "(f, n) \<in> set (references a)"
  then obtain g site t where g: "g \<in> set (reachable a)" and edge: "(site, t) \<in> set (import_edges a g)"
    and r: "(f, n) \<in> set (references_of_edge a (site, t))"
    unfolding references_def by auto
  from r have "t = f" using references_of_edge_target by fastforce
  with g edge r show "\<exists>g \<in> set (reachable a). \<exists>site.
         (site, f) \<in> set (import_edges a g) \<and> (f, n) \<in> set (references_of_edge a (site, f))"
    by blast
next
  assume "\<exists>g \<in> set (reachable a). \<exists>site.
         (site, f) \<in> set (import_edges a g) \<and> (f, n) \<in> set (references_of_edge a (site, f))"
  then show "(f, n) \<in> set (references a)"
    by (blast intro: references_member)
qed

lemma import_edges_member:
  assumes "site \<in> set (file_imports (parse_file a g))" and "import_specifier site = StringLiteral s"
    and "resolve a g s = Internal m"
  shows "(site, m) \<in> set (import_edges a g)"
  using assms by (force simp: import_edges_def resolved_target_def)

section \<open>The expo plugin: claims\<close>

text \<open>
  C1. For every expo configuration and every manifest, if the manifest's \<^verbatim>\<open>main\<close> field is
  the string \<^verbatim>\<open>expo-router/entry\<close>, the returned inputs contain \<^verbatim>\<open>expo-router\<close> as a
  production dependency. The call has no source file among its inputs, so this holds
  regardless of any source-level import.
\<close>

theorem expo_router_attributed:
  assumes "main (manifest (options h)) = Some ''expo-router/entry''"
  shows "toProductionDependency ''expo-router'' \<in> set (contents (getDependencies g h))"
  using assms by (simp add: getDependencies_run(1))

theorem expo_router_attributed_witness:
  "main (manifest (options (heapOf emptyAppConfig (emptyManifest\<lparr>main := Some ''expo-router/entry''\<rparr>) 0)))
     = Some ''expo-router/entry''
   \<and> toProductionDependency ''expo-router''
       \<in> set (contents (getDependencies getPackageNameFromModuleSpecifier
                 (heapOf emptyAppConfig (emptyManifest\<lparr>main := Some ''expo-router/entry''\<rparr>) 0)))"
  using expo_router_attributed[of "heapOf emptyAppConfig (emptyManifest\<lparr>main := Some ''expo-router/entry''\<rparr>) 0"
      getPackageNameFromModuleSpecifier]
  by (simp add: heapOf_def emptyManifest_def)

text \<open>
  C5. The call is deterministic and free of side effects. In two states that hold the
  same two arguments (whatever objects were allocated before), the returned arrays hold
  equal inputs in the same order; a second call in the state the first call leaves
  returns equal inputs again; and the call leaves both arguments as they were: the only
  change to the state is the allocation of the returned objects, which are new in every
  call. A \<open>localConfig\<close> that is a function is a pure function, as the claim assumes,
  and so is the name helper.
\<close>

theorem getDependencies_deterministic:
  assumes "localConfig h1 = localConfig h2" and "options h1 = options h2"
  shows "contents (getDependencies g h1) = contents (getDependencies g h2)
       \<and> contents (getDependencies g (snd (getDependencies g h1))) = contents (getDependencies g h1)
       \<and> localConfig (snd (getDependencies g h1)) = localConfig h1
       \<and> options (snd (getDependencies g h1)) = options h1
       \<and> snd (getDependencies g h1)
           = h1\<lparr>next_ref := next_ref h1 + length (contents (getDependencies g h1))\<rparr>"
proof -
  have same: "contents (getDependencies g h1) = contents (getDependencies g h2)"
    using assms by (simp only: getDependencies_run(1))
  have args: "localConfig (snd (getDependencies g h1)) = localConfig h1"
             "options (snd (getDependencies g h1)) = options h1"
    by (rule getDependencies_args(1), rule getDependencies_args(2))
  have again: "contents (getDependencies g (snd (getDependencies g h1))) = contents (getDependencies g h1)"
    using args by (simp only: getDependencies_run(1))
  from same again args getDependencies_heap[of g h1] show ?thesis by simp
qed

theorem getDependencies_deterministic_witness:
  "localConfig (heapOf (emptyAppConfig\<lparr>platforms := Some [''web'']\<rparr>) emptyManifest 0)
     = localConfig (heapOf (emptyAppConfig\<lparr>platforms := Some [''web'']\<rparr>) emptyManifest 7)
   \<and> options (heapOf (emptyAppConfig\<lparr>platforms := Some [''web'']\<rparr>) emptyManifest 0)
     = options (heapOf (emptyAppConfig\<lparr>platforms := Some [''web'']\<rparr>) emptyManifest 7)
   \<and> contents (getDependencies getPackageNameFromModuleSpecifier
                 (heapOf (emptyAppConfig\<lparr>platforms := Some [''web'']\<rparr>) emptyManifest 0))
     = contents (getDependencies getPackageNameFromModuleSpecifier
                 (heapOf (emptyAppConfig\<lparr>platforms := Some [''web'']\<rparr>) emptyManifest 7))
   \<and> fst (getDependencies getPackageNameFromModuleSpecifier
                 (heapOf (emptyAppConfig\<lparr>platforms := Some [''web'']\<rparr>) emptyManifest 0))
     \<noteq> fst (getDependencies getPackageNameFromModuleSpecifier
                 (heapOf (emptyAppConfig\<lparr>platforms := Some [''web'']\<rparr>) emptyManifest 7))"
  using getDependencies_deterministic[of
      "heapOf (emptyAppConfig\<lparr>platforms := Some [''web'']\<rparr>) emptyManifest 0"
      "heapOf (emptyAppConfig\<lparr>platforms := Some [''web'']\<rparr>) emptyManifest 7"
      getPackageNameFromModuleSpecifier]
  by (simp add: heapOf_def getDependencies_def Let_def emptyAppConfig_def emptyManifest_def
      resolveConfig_def platformsOf_def pluginPackages_def manifestDependencies_def
      allowedPackages_def allowedProductionPackages_def updatesEnabled_def needsSystemUi_def
      truthy_def add_new_def alloc_def Set_add_def)

text \<open>
  C6, first part on the code, second part on the attribution table of the spec. Whatever
  the shape of \<open>localConfig\<close> (an object or a function returning one, the configuration
  itself or an object holding it under \<^verbatim>\<open>expo\<close>), for every entry of the \<^verbatim>\<open>plugins\<close>
  array, a string or an array whose first element is the string, the package name the
  helper derives from that string, when it derives one, is among the returned inputs as
  a dependency. Once the inputs are attributed, that package has a non-empty
  referenced-by-plugin entry and is not among the unused dependencies, whatever the
  table held before and whatever is declared.
\<close>

theorem plugin_entries_attributed:
  assumes "localConfig h = ObjectConfig co \<or> (localConfig h = FunctionConfig f \<and> f () = co)"
    and "co = ExpoBare config \<or> co = ExpoWrapped config"
    and "plugins config = Some ps"
    and "PluginName s \<in> set ps \<or> PluginTuple s opts \<in> set ps"
    and "g s = Some n" and "n \<noteq> []"
  shows "toDependency n \<in> set (contents (getDependencies g h))
       \<and> referenced_by_plugin (attribute ''expo'' (contents (getDependencies g h)) tbl n) \<noteq> []
       \<and> n \<notin> set (unused_dependencies declared (attribute ''expo'' (contents (getDependencies g h)) tbl))"
proof -
  have config: "resolveConfig (localConfig h) = config"
    using assms(1,2) by (auto simp: resolveConfig_def)
  obtain p where p: "p \<in> set ps" "pluginName p = s"
    using assms(4) by (auto simp: pluginName_def)
  have "n \<in> set (pluginPackages g config)"
    using assms(3) p(1) assms(5,6) unfolding p(2)[symmetric] by (rule pluginPackages_member)
  then have mem: "toDependency n \<in> set (contents (getDependencies g h))"
    by (simp add: getDependencies_run(1) config)
  have "referenced_by_plugin (attribute ''expo'' (contents (getDependencies g h)) tbl (specifier (toDependency n))) \<noteq> []"
    using mem by (rule attribute_member)
  then have ref: "referenced_by_plugin (attribute ''expo'' (contents (getDependencies g h)) tbl n) \<noteq> []"
    by (simp add: toDependency_def)
  then have "n \<notin> set (unused_dependencies declared (attribute ''expo'' (contents (getDependencies g h)) tbl))"
    by (simp add: unused_dependencies_def unused_def)
  with mem ref show ?thesis by simp
qed

theorem plugin_entries_attributed_witness:
  "localConfig cameraHeap = ObjectConfig (ExpoBare (emptyAppConfig\<lparr>plugins := Some cameraPlugins\<rparr>))
   \<and> PluginTuple ''expo-camera/plugin'' [(''cameraPermission'', ''Allow'')] \<in> set cameraPlugins
   \<and> getPackageNameFromModuleSpecifier ''expo-camera/plugin'' = Some ''expo-camera''
   \<and> toDependency ''expo-camera'' \<in> set (contents (getDependencies getPackageNameFromModuleSpecifier cameraHeap))
   \<and> referenced_by_plugin
        (attribute ''expo'' (contents (getDependencies getPackageNameFromModuleSpecifier cameraHeap)) emptyTable
           ''expo-camera'') \<noteq> []
   \<and> ''expo-camera'' \<notin> set (unused_dependencies [''expo'', ''expo-camera'']
        (attribute ''expo'' (contents (getDependencies getPackageNameFromModuleSpecifier cameraHeap)) emptyTable))
   \<and> PluginName ''@config-plugins/detox/app'' \<in> set cameraPlugins
   \<and> getPackageNameFromModuleSpecifier ''@config-plugins/detox/app'' = Some ''@config-plugins/detox''
   \<and> toDependency ''@config-plugins/detox''
        \<in> set (contents (getDependencies getPackageNameFromModuleSpecifier cameraFunctionHeap))
   \<and> ''@config-plugins/detox'' \<notin> set (unused_dependencies [''@config-plugins/detox'', ''expo'']
        (attribute ''expo'' (contents (getDependencies getPackageNameFromModuleSpecifier cameraFunctionHeap))
           emptyTable))"
  using plugin_entries_attributed[where h = cameraHeap
      and co = "ExpoBare (emptyAppConfig\<lparr>plugins := Some cameraPlugins\<rparr>)"
      and config = "emptyAppConfig\<lparr>plugins := Some cameraPlugins\<rparr>"
      and ps = cameraPlugins and s = "''expo-camera/plugin''"
      and opts = "[(''cameraPermission'', ''Allow'')]"
      and g = getPackageNameFromModuleSpecifier and n = "''expo-camera''"
      and tbl = emptyTable and declared = "[''expo'', ''expo-camera'']"]
    plugin_entries_attributed[where h = cameraFunctionHeap
      and f = "\<lambda>_. ExpoWrapped (emptyAppConfig\<lparr>plugins := Some cameraPlugins\<rparr>)"
      and co = "ExpoWrapped (emptyAppConfig\<lparr>plugins := Some cameraPlugins\<rparr>)"
      and config = "emptyAppConfig\<lparr>plugins := Some cameraPlugins\<rparr>"
      and ps = cameraPlugins and s = "''@config-plugins/detox/app''"
      and g = getPackageNameFromModuleSpecifier and n = "''@config-plugins/detox''"
      and tbl = emptyTable and declared = "[''@config-plugins/detox'', ''expo'']"]
  by (simp add: cameraHeap_def cameraFunctionHeap_def cameraPlugins_def heapOf_def emptyAppConfig_def
      getPackageNameFromModuleSpecifier_def segment_def)

text \<open>
  C7, as stated: each of the three allow-listed packages is attributed if and only if it
  is a key of the manifest's \<^verbatim>\<open>dependencies\<close>. This fails: a configuration that names
  \<^verbatim>\<open>expo-dev-client\<close> in its \<^verbatim>\<open>plugins\<close> array gets it attributed although the manifest
  lists it under \<^verbatim>\<open>devDependencies\<close> only.
\<close>

theorem allowed_packages_counterexample:
  "\<not> (toDependency ''expo-dev-client''
         \<in> set (contents (getDependencies getPackageNameFromModuleSpecifier devClientHeap))
       \<longleftrightarrow> ''expo-dev-client'' \<in> set (manifestDependencies (manifest (options devClientHeap))))"
  by (simp add: plain_mem devClientHeap_def run_defs)

text \<open>
  C7, amended. \<^verbatim>\<open>expo-insights\<close> is attributed as a production dependency if and only
  if it is a key of the manifest's \<^verbatim>\<open>dependencies\<close>, and as a plain dependency if and
  only if the \<^verbatim>\<open>plugins\<close> array names it. \<^verbatim>\<open>expo-atlas\<close> and \<^verbatim>\<open>expo-dev-client\<close> are
  never attributed as production dependencies, and are attributed as plain dependencies
  if and only if they are keys of \<^verbatim>\<open>dependencies\<close> or named by the \<^verbatim>\<open>plugins\<close> array.
  The \<^verbatim>\<open>devDependencies\<close> of the manifest are not considered.
\<close>

theorem allowed_packages_attributed:
  "(toProductionDependency ''expo-insights'' \<in> set (contents (getDependencies g h))
      \<longleftrightarrow> ''expo-insights'' \<in> set (manifestDependencies (manifest (options h))))
   \<and> (toDependency ''expo-insights'' \<in> set (contents (getDependencies g h))
      \<longleftrightarrow> ''expo-insights'' \<in> set (pluginPackages g (resolveConfig (localConfig h))))
   \<and> (\<forall>pkg \<in> set allowedPackages.
        (toDependency pkg \<in> set (contents (getDependencies g h))
           \<longleftrightarrow> pkg \<in> set (manifestDependencies (manifest (options h)))
               \<or> pkg \<in> set (pluginPackages g (resolveConfig (localConfig h))))
        \<and> toProductionDependency pkg \<notin> set (contents (getDependencies g h)))
   \<and> contents (getDependencies g
        (h\<lparr>options := (options h)\<lparr>manifest := (manifest (options h))\<lparr>devDependencies := d\<rparr>\<rparr>\<rparr>))
      = contents (getDependencies g h)"
proof (intro conjI ballI)
  show "toProductionDependency ''expo-insights'' \<in> set (contents (getDependencies g h))
      \<longleftrightarrow> ''expo-insights'' \<in> set (manifestDependencies (manifest (options h)))"
    by (simp add: production_mem allowedProductionPackages_def)
next
  show "toDependency ''expo-insights'' \<in> set (contents (getDependencies g h))
      \<longleftrightarrow> ''expo-insights'' \<in> set (pluginPackages g (resolveConfig (localConfig h)))"
    by (simp add: plain_mem allowedPackages_def)
next
  fix pkg assume "pkg \<in> set allowedPackages"
  then show "toDependency pkg \<in> set (contents (getDependencies g h))
           \<longleftrightarrow> pkg \<in> set (manifestDependencies (manifest (options h)))
               \<or> pkg \<in> set (pluginPackages g (resolveConfig (localConfig h)))"
    by (auto simp: plain_mem allowedPackages_def)
next
  fix pkg assume "pkg \<in> set allowedPackages"
  then show "toProductionDependency pkg \<notin> set (contents (getDependencies g h))"
    by (auto simp: production_mem allowedPackages_def allowedProductionPackages_def)
next
  show "contents (getDependencies g
        (h\<lparr>options := (options h)\<lparr>manifest := (manifest (options h))\<lparr>devDependencies := d\<rparr>\<rparr>\<rparr>))
      = contents (getDependencies g h)"
    by (simp add: getDependencies_run(1) manifestDependencies_def)
qed

theorem allowed_packages_attributed_witness:
  "''expo-insights'' \<in> set (manifestDependencies (manifest (options insightsHeap)))
   \<and> toProductionDependency ''expo-insights''
        \<in> set (contents (getDependencies getPackageNameFromModuleSpecifier insightsHeap))
   \<and> ''expo-atlas'' \<in> set allowedPackages
   \<and> toDependency ''expo-atlas''
        \<in> set (contents (getDependencies getPackageNameFromModuleSpecifier insightsHeap))
   \<and> ''expo-dev-client'' \<in> set allowedPackages
   \<and> ''expo-dev-client'' \<notin> set (manifestDependencies (manifest (options insightsHeap)))
   \<and> ''expo-dev-client'' \<notin> set (pluginPackages getPackageNameFromModuleSpecifier (resolveConfig (localConfig insightsHeap)))
   \<and> toDependency ''expo-dev-client''
        \<notin> set (contents (getDependencies getPackageNameFromModuleSpecifier insightsHeap))
   \<and> ''expo-dev-client'' \<in> set (pluginPackages getPackageNameFromModuleSpecifier (resolveConfig (localConfig devClientHeap)))
   \<and> toDependency ''expo-dev-client''
        \<in> set (contents (getDependencies getPackageNameFromModuleSpecifier devClientHeap))"
  using allowed_packages_attributed[of getPackageNameFromModuleSpecifier insightsHeap None]
        allowed_packages_attributed[of getPackageNameFromModuleSpecifier devClientHeap None]
  by (simp add: plain_mem production_mem insightsHeap_def devClientHeap_def run_defs)

text \<open>
  C8. A configuration with no \<^verbatim>\<open>platforms\<close> field gives the same inputs as the same
  configuration with \<^verbatim>\<open>platforms\<close> set to ios and android; and \<^verbatim>\<open>react-native-web\<close> and
  \<^verbatim>\<open>react-dom\<close> are attributed as production dependencies if and only if \<^verbatim>\<open>web\<close> is
  an element of the (defaulted) platforms.
\<close>

theorem default_platforms:
  "(platforms (resolveConfig (localConfig h)) = None \<longrightarrow>
      contents (getDependencies g h)
        = contents (getDependencies g
            (h\<lparr>localConfig := ObjectConfig (ExpoBare
                 ((resolveConfig (localConfig h))\<lparr>platforms := Some [''ios'', ''android'']\<rparr>))\<rparr>)))
   \<and> (toProductionDependency ''react-native-web'' \<in> set (contents (getDependencies g h))
        \<longleftrightarrow> ''web'' \<in> set (platformsOf (resolveConfig (localConfig h))))
   \<and> (toProductionDependency ''react-dom'' \<in> set (contents (getDependencies g h))
        \<longleftrightarrow> ''web'' \<in> set (platformsOf (resolveConfig (localConfig h))))"
proof (intro conjI impI)
  assume none: "platforms (resolveConfig (localConfig h)) = None"
  show "contents (getDependencies g h)
        = contents (getDependencies g
            (h\<lparr>localConfig := ObjectConfig (ExpoBare
                 ((resolveConfig (localConfig h))\<lparr>platforms := Some [''ios'', ''android'']\<rparr>))\<rparr>))"
    using none
    by (simp add: getDependencies_run(1) resolveConfig_def platformsOf_def pluginPackages_def
        updatesEnabled_def needsSystemUi_def)
next
  show "toProductionDependency ''react-native-web'' \<in> set (contents (getDependencies g h))
        \<longleftrightarrow> ''web'' \<in> set (platformsOf (resolveConfig (localConfig h)))"
    by (simp add: production_mem allowedProductionPackages_def)
next
  show "toProductionDependency ''react-dom'' \<in> set (contents (getDependencies g h))
        \<longleftrightarrow> ''web'' \<in> set (platformsOf (resolveConfig (localConfig h)))"
    by (simp add: production_mem allowedProductionPackages_def)
qed

theorem default_platforms_witness:
  "platforms (resolveConfig (localConfig bareHeap)) = None
   \<and> contents (getDependencies getPackageNameFromModuleSpecifier bareHeap)
       = contents (getDependencies getPackageNameFromModuleSpecifier
           (bareHeap\<lparr>localConfig := ObjectConfig (ExpoBare
              ((resolveConfig (localConfig bareHeap))\<lparr>platforms := Some [''ios'', ''android'']\<rparr>))\<rparr>))
   \<and> ''web'' \<notin> set (platformsOf (resolveConfig (localConfig bareHeap)))
   \<and> toProductionDependency ''react-native-web''
        \<notin> set (contents (getDependencies getPackageNameFromModuleSpecifier bareHeap))
   \<and> ''web'' \<in> set (platformsOf (resolveConfig (localConfig webHeap)))
   \<and> toProductionDependency ''react-native-web''
        \<in> set (contents (getDependencies getPackageNameFromModuleSpecifier webHeap))
   \<and> toProductionDependency ''react-dom''
        \<in> set (contents (getDependencies getPackageNameFromModuleSpecifier webHeap))"
  using default_platforms[of bareHeap getPackageNameFromModuleSpecifier]
        default_platforms[of webHeap getPackageNameFromModuleSpecifier]
  by (simp add: getDependencies_run(1) bareHeap_def webHeap_def run_defs Input_neq)

text \<open>
  C9. \<^verbatim>\<open>expo-updates\<close> is attributed as a production dependency unless
  \<^verbatim>\<open>updates.enabled\<close> is exactly \<^verbatim>\<open>false\<close>: also when \<^verbatim>\<open>updates\<close> is absent and when
  \<^verbatim>\<open>enabled\<close> is undefined.
\<close>

theorem expo_updates_attributed:
  "toProductionDependency ''expo-updates'' \<in> set (contents (getDependencies g h))
     \<longleftrightarrow> \<not> (\<exists>u. updates (resolveConfig (localConfig h)) = Some u \<and> enabled u = Some False)"
  by (auto simp: production_mem allowedProductionPackages_def updatesEnabled_def split: option.splits)

theorem expo_updates_attributed_witness:
  "updates (resolveConfig (localConfig bareHeap)) = None
   \<and> toProductionDependency ''expo-updates''
        \<in> set (contents (getDependencies getPackageNameFromModuleSpecifier bareHeap))
   \<and> updates (resolveConfig (localConfig updatesOffHeap)) = Some \<lparr>enabled = Some False\<rparr>
   \<and> toProductionDependency ''expo-updates''
        \<notin> set (contents (getDependencies getPackageNameFromModuleSpecifier updatesOffHeap))"
  using expo_updates_attributed[of getPackageNameFromModuleSpecifier bareHeap]
        expo_updates_attributed[of getPackageNameFromModuleSpecifier updatesOffHeap]
  by (simp add: getDependencies_run(1) bareHeap_def updatesOffHeap_def run_defs Input_neq)

text \<open>
  C10, as stated: \<^verbatim>\<open>@expo/metro-runtime\<close> is attributed if and only if the platforms
  include \<^verbatim>\<open>web\<close> and \<^verbatim>\<open>main\<close> is not \<^verbatim>\<open>expo-router/entry\<close>. This fails: a
  configuration that names the package in its \<^verbatim>\<open>plugins\<close> array gets it attributed
  without the web platform.
\<close>

theorem metro_runtime_counterexample:
  "\<not> (toDependency ''@expo/metro-runtime''
         \<in> set (contents (getDependencies getPackageNameFromModuleSpecifier metroPluginHeap))
       \<longleftrightarrow> ''web'' \<in> set (platformsOf (resolveConfig (localConfig metroPluginHeap)))
           \<and> main (manifest (options metroPluginHeap)) \<noteq> Some ''expo-router/entry'')"
  by (simp add: plain_mem metroPluginHeap_def run_defs)

text \<open>
  C10, amended. \<^verbatim>\<open>@expo/metro-runtime\<close> is attributed (as a plain dependency, never as
  a production one) if and only if the platforms include \<^verbatim>\<open>web\<close> and \<^verbatim>\<open>main\<close> is not
  \<^verbatim>\<open>expo-router/entry\<close>, or the \<^verbatim>\<open>plugins\<close> array names it. With both the web platform
  and the expo-router entry point, \<^verbatim>\<open>expo-router\<close>, \<^verbatim>\<open>react-native-web\<close> and
  \<^verbatim>\<open>react-dom\<close> are attributed and \<^verbatim>\<open>@expo/metro-runtime\<close> only if the \<^verbatim>\<open>plugins\<close> array
  names it.
\<close>

theorem metro_runtime_attributed:
  "(toDependency ''@expo/metro-runtime'' \<in> set (contents (getDependencies g h))
      \<longleftrightarrow> (''web'' \<in> set (platformsOf (resolveConfig (localConfig h)))
            \<and> main (manifest (options h)) \<noteq> Some ''expo-router/entry'')
          \<or> ''@expo/metro-runtime'' \<in> set (pluginPackages g (resolveConfig (localConfig h))))
   \<and> toProductionDependency ''@expo/metro-runtime'' \<notin> set (contents (getDependencies g h))
   \<and> (''web'' \<in> set (platformsOf (resolveConfig (localConfig h)))
        \<and> main (manifest (options h)) = Some ''expo-router/entry''
      \<longrightarrow> toProductionDependency ''expo-router'' \<in> set (contents (getDependencies g h))
        \<and> toProductionDependency ''react-native-web'' \<in> set (contents (getDependencies g h))
        \<and> toProductionDependency ''react-dom'' \<in> set (contents (getDependencies g h))
        \<and> (toDependency ''@expo/metro-runtime'' \<in> set (contents (getDependencies g h))
            \<longleftrightarrow> ''@expo/metro-runtime'' \<in> set (pluginPackages g (resolveConfig (localConfig h)))))"
proof (intro conjI impI)
  show "toDependency ''@expo/metro-runtime'' \<in> set (contents (getDependencies g h))
      \<longleftrightarrow> (''web'' \<in> set (platformsOf (resolveConfig (localConfig h)))
            \<and> main (manifest (options h)) \<noteq> Some ''expo-router/entry'')
          \<or> ''@expo/metro-runtime'' \<in> set (pluginPackages g (resolveConfig (localConfig h)))"
    by (auto simp: plain_mem allowedPackages_def)
next
  show "toProductionDependency ''@expo/metro-runtime'' \<notin> set (contents (getDependencies g h))"
    by (simp add: production_mem allowedProductionPackages_def)
next
  assume both: "''web'' \<in> set (platformsOf (resolveConfig (localConfig h)))
        \<and> main (manifest (options h)) = Some ''expo-router/entry''"
  then show "toProductionDependency ''expo-router'' \<in> set (contents (getDependencies g h))"
    by (simp add: production_mem)
  from both show "toProductionDependency ''react-native-web'' \<in> set (contents (getDependencies g h))"
    by (simp add: production_mem)
  from both show "toProductionDependency ''react-dom'' \<in> set (contents (getDependencies g h))"
    by (simp add: production_mem)
  from both show "toDependency ''@expo/metro-runtime'' \<in> set (contents (getDependencies g h))
            \<longleftrightarrow> ''@expo/metro-runtime'' \<in> set (pluginPackages g (resolveConfig (localConfig h)))"
    by (auto simp: plain_mem allowedPackages_def)
qed

theorem metro_runtime_attributed_witness:
  "''web'' \<in> set (platformsOf (resolveConfig (localConfig webHeap)))
   \<and> main (manifest (options webHeap)) \<noteq> Some ''expo-router/entry''
   \<and> toDependency ''@expo/metro-runtime''
        \<in> set (contents (getDependencies getPackageNameFromModuleSpecifier webHeap))
   \<and> ''web'' \<in> set (platformsOf (resolveConfig (localConfig webRouterHeap)))
   \<and> main (manifest (options webRouterHeap)) = Some ''expo-router/entry''
   \<and> ''@expo/metro-runtime'' \<notin> set (pluginPackages getPackageNameFromModuleSpecifier (resolveConfig (localConfig webRouterHeap)))
   \<and> toDependency ''@expo/metro-runtime''
        \<notin> set (contents (getDependencies getPackageNameFromModuleSpecifier webRouterHeap))
   \<and> toProductionDependency ''expo-router''
        \<in> set (contents (getDependencies getPackageNameFromModuleSpecifier webRouterHeap))
   \<and> toProductionDependency ''react-native-web''
        \<in> set (contents (getDependencies getPackageNameFromModuleSpecifier webRouterHeap))
   \<and> toProductionDependency ''react-dom''
        \<in> set (contents (getDependencies getPackageNameFromModuleSpecifier webRouterHeap))"
  using metro_runtime_attributed[of getPackageNameFromModuleSpecifier webHeap]
        metro_runtime_attributed[of getPackageNameFromModuleSpecifier webRouterHeap]
  by (simp add: plain_mem production_mem webHeap_def webRouterHeap_def run_defs)

section \<open>The reference graph and the classifier: claims\<close>

text \<open>
  C2. For every module imported as a namespace: if a file reachable from the entry set
  contains a whole-namespace iteration of that namespace (\<^verbatim>\<open>Object.values(ns)\<close>, a
  \<^verbatim>\<open>for ... in\<close> over it, a spread, or a pass to an unknown function), then all exports of
  the source module are referenced and no export of that module is in the unused-exports
  report.
\<close>

theorem namespace_conservatism:
  assumes "en \<in> set (entry a)" and "(en, g) \<in> (import_graph a)\<^sup>*"
    and "site \<in> set (file_imports (parse_file a g))"
    and "import_specifier site = StringLiteral s" and "resolve a g s = Internal m"
    and "imported site = Namespace uses" and "u \<in> set uses"
    and "u = ObjectEnumeration \<or> u = ForIn \<or> u = Spread \<or> u = PassedAsArgument"
  shows "(\<forall>e \<in> set (file_exports (parse_file a m)). (m, export_name e) \<in> set (references a))
       \<and> m \<notin> fst ` set (unused_exports a)"
proof -
  have g: "g \<in> set (reachable a)"
    using assms(1,2) reachable_iff by blast
  have edge: "(site, m) \<in> set (import_edges a g)"
    using assms(3,4,5) by (rule import_edges_member)
  have all: "(m, export_name e) \<in> set (references a)"
    if e: "e \<in> set (file_exports (parse_file a m))" for e
  proof -
    have "export_name e \<in> set (names_of_use a m u)"
      using assms(8) e by (auto simp: names_of_use_def)
    then have "(m, export_name e) \<in> set (references_of_edge a (site, m))"
      using assms(6,7) by (auto simp: references_of_edge_def)
    with g edge show ?thesis by (rule references_member)
  qed
  have "m \<notin> fst ` set (unused_exports a)"
  proof
    assume "m \<in> fst ` set (unused_exports a)"
    then obtain e where "(m, e) \<in> set (unused_exports a)" by force
    then have "e \<in> set (file_exports (parse_file a m))"
      and "(m, export_name e) \<notin> set (references a)"
      by (auto simp: unused_exports_def)
    with all show False by blast
  qed
  with all show ?thesis by blast
qed

theorem namespace_conservatism_witness:
  "''index.ts'' \<in> set (entry (fruits_scenario ObjectEnumeration))
   \<and> references (fruits_scenario ObjectEnumeration) = [(''fruits.ts'', ''apple''), (''fruits.ts'', ''orange'')]
   \<and> ''fruits.ts'' \<in> set (reachable (fruits_scenario ObjectEnumeration))
   \<and> unused_exports (fruits_scenario ObjectEnumeration) = []
   \<and> unused_exports (fruits_scenario (MemberAccess ''apple''))
        = [(''fruits.ts'', \<lparr>export_name = ''orange'', jsdoc_tags = []\<rparr>)]"
  using namespace_conservatism[where a = "fruits_scenario ObjectEnumeration"
      and en = "''index.ts''" and g = "''index.ts''"
      and site = "\<lparr>import_specifier = StringLiteral ''./fruits.js'', imported = Namespace [ObjectEnumeration]\<rparr>"
      and s = "''./fruits.js''" and m = "''fruits.ts''" and uses = "[ObjectEnumeration]"
      and u = ObjectEnumeration]
  by (simp add: fruits_scenario_def scenario_defs)

text \<open>
  C3. A dynamic import specifier (one that is not a string literal) contributes no import
  edge; and a project file that is neither ignored nor an entry and that no reachable
  file imports through a string-literal specifier is reported as an unused file,
  whatever dynamic specifiers the reachable files contain.
\<close>

theorem dynamic_specifier_does_not_suppress:
  assumes "f \<in> set (project a)" and "f \<notin> set (ignore a)" and "f \<notin> set (entry a)"
    and "\<forall>g \<in> set (reachable a). \<forall>site \<in> set (file_imports (parse_file a g)). \<forall>s.
           import_specifier site = StringLiteral s \<longrightarrow> resolve a g s \<noteq> Internal f"
  shows "(\<forall>g site t. (site, t) \<in> set (import_edges a g) \<longrightarrow> import_specifier site \<noteq> NonLiteral)
       \<and> f \<in> set (unused_files a)"
proof
  show "\<forall>g site t. (site, t) \<in> set (import_edges a g) \<longrightarrow> import_specifier site \<noteq> NonLiteral"
    by (auto simp: import_edges_def resolved_target_def)
next
  have "f \<notin> set (reachable a)"
  proof
    assume "f \<in> set (reachable a)"
    then obtain e where e: "e \<in> set (entry a)" "(e, f) \<in> (import_graph a)\<^sup>*"
      using reachable_iff by blast
    from e(2) show False
    proof (cases rule: rtranclE)
      case base
      with e(1) assms(3) show False by simp
    next
      case (step g)
      from step(1) e(1) have "g \<in> set (reachable a)" using reachable_iff by blast
      moreover from step(2) have "f \<in> set (targets a g)" by (simp add: import_graph_def)
      ultimately show False using assms(4) by (auto simp: targets_iff)
    qed
  qed
  with assms(1,2) show "f \<in> set (unused_files a)" by (simp add: unused_files_def)
qed

theorem dynamic_specifier_does_not_suppress_witness:
  "reachable dynamic_scenario = [''index.ts''] \<and> import_edges dynamic_scenario ''index.ts'' = []
   \<and> ''entry-a.ts'' \<in> set (unused_files dynamic_scenario)"
  using dynamic_specifier_does_not_suppress[of "''entry-a.ts''" dynamic_scenario]
  by (simp add: dynamic_scenario_def scenario_defs)

text \<open>
  C4, as stated: an export of a reachable file is reported if and only if no reference
  edge points to it and its file is not an entry (unless entry exports are included).
  This fails for an export tagged \<^verbatim>\<open>@public\<close>: it is not referenced, its file is not an
  entry, and it is not reported.
\<close>

theorem unused_exports_counterexample:
  "''lib.ts'' \<in> set (reachable (public_scenario [''@public''] []))
   \<and> \<lparr>export_name = ''helper'', jsdoc_tags = [''@public'']\<rparr>
        \<in> set (file_exports (parse_file (public_scenario [''@public''] []) ''lib.ts''))
   \<and> \<not> ((''lib.ts'', \<lparr>export_name = ''helper'', jsdoc_tags = [''@public'']\<rparr>)
            \<in> set (unused_exports (public_scenario [''@public''] []))
          \<longleftrightarrow> (''lib.ts'', ''helper'') \<notin> set (references (public_scenario [''@public''] []))
              \<and> (''lib.ts'' \<notin> set (entry (public_scenario [''@public''] []))
                   \<or> includeEntryExports (public_scenario [''@public''] [])))"
  by (simp add: public_scenario_def scenario_defs)

text \<open>
  C4, amended. For every export E of a file reachable from the entry set, E is in the
  unused-exports report if and only if no reference edge of a reachable file points to
  E, the file of E is not in the ignore set, E carries neither \<^verbatim>\<open>@public\<close> nor a tag
  equivalent to it, and the file of E is not in the entry set or the option to include
  entry exports is set. The report holds exports of reachable files only.
\<close>

theorem unused_exports_iff:
  "(\<forall>en \<in> set (entry a). (en, f) \<in> (import_graph a)\<^sup>* \<longrightarrow> e \<in> set (file_exports (parse_file a f)) \<longrightarrow>
      ((f, e) \<in> set (unused_exports a) \<longleftrightarrow>
         \<not> (\<exists>en' \<in> set (entry a). \<exists>g site.
               (en', g) \<in> (import_graph a)\<^sup>* \<and> (site, f) \<in> set (import_edges a g)
               \<and> (f, export_name e) \<in> set (references_of_edge a (site, f)))
         \<and> f \<notin> set (ignore a)
         \<and> \<not> (\<exists>t \<in> set (jsdoc_tags e). t = ''@public'' \<or> t \<in> set (equivalent_tags a))
         \<and> (f \<notin> set (entry a) \<or> includeEntryExports a)))
   \<and> ((f, e) \<in> set (unused_exports a) \<longrightarrow>
         (\<exists>en \<in> set (entry a). (en, f) \<in> (import_graph a)\<^sup>*) \<and> e \<in> set (file_exports (parse_file a f)))"
proof -
  have refs: "(f, export_name e) \<in> set (references a) \<longleftrightarrow>
      (\<exists>en' \<in> set (entry a). \<exists>g site.
          (en', g) \<in> (import_graph a)\<^sup>* \<and> (site, f) \<in> set (import_edges a g)
          \<and> (f, export_name e) \<in> set (references_of_edge a (site, f)))"
    unfolding references_iff Bex_def reachable_iff by blast
  have tags: "suppressed a e \<longleftrightarrow> (\<exists>t \<in> set (jsdoc_tags e). t = ''@public'' \<or> t \<in> set (equivalent_tags a))"
    by (simp add: suppressed_def suppressing_tags_def)
  have report: "(f, e) \<in> set (unused_exports a) \<longleftrightarrow>
      f \<in> set (reachable a) \<and> e \<in> set (file_exports (parse_file a f))
      \<and> (f, export_name e) \<notin> set (references a)
      \<and> (f \<notin> set (entry a) \<or> includeEntryExports a)
      \<and> \<not> suppressed a e \<and> f \<notin> set (ignore a)"
    by (auto simp: unused_exports_def)
  show ?thesis
    unfolding report refs tags reachable_iff Bex_def Ball_def by blast
qed

theorem unused_exports_iff_witness:
  "''index.ts'' \<in> set (entry (public_scenario [] []))
   \<and> (''lib.ts'', \<lparr>export_name = ''helper'', jsdoc_tags = []\<rparr>) \<in> set (unused_exports (public_scenario [] []))
   \<and> (''lib.ts'', \<lparr>export_name = ''helper'', jsdoc_tags = [''@public'']\<rparr>)
        \<notin> set (unused_exports (public_scenario [''@public''] []))
   \<and> (''lib.ts'', \<lparr>export_name = ''helper'', jsdoc_tags = [''@beta'']\<rparr>)
        \<notin> set (unused_exports (public_scenario [''@beta''] []))
   \<and> (''lib.ts'', \<lparr>export_name = ''helper'', jsdoc_tags = []\<rparr>)
        \<notin> set (unused_exports (public_scenario [] [''lib.ts'']))"
  using unused_exports_iff[of "public_scenario [] []" "''lib.ts''" "\<lparr>export_name = ''helper'', jsdoc_tags = []\<rparr>"]
        unused_exports_iff[of "public_scenario [''@public''] []" "''lib.ts''"
          "\<lparr>export_name = ''helper'', jsdoc_tags = [''@public'']\<rparr>"]
        unused_exports_iff[of "public_scenario [''@beta''] []" "''lib.ts''"
          "\<lparr>export_name = ''helper'', jsdoc_tags = [''@beta'']\<rparr>"]
        unused_exports_iff[of "public_scenario [] [''lib.ts'']" "''lib.ts''"
          "\<lparr>export_name = ''helper'', jsdoc_tags = []\<rparr>"]
  by (simp add: public_scenario_def scenario_defs)

end
